theory Spec2Isabelle
  imports Complex_Main
begin

section \<open>Cell areas of a latitude/longitude grid repeated over depth\<close>

text \<open>
  A shallow embedding of \<^verbatim>\<open>compute_3d_area\<close> from \<^verbatim>\<open>scripts/misc.py\<close>.

  Numbers: NumPy computes in binary floating point; here every number is a \<^typ>\<open>real\<close>,
  so the theorems below are about the arithmetic the code writes down, not about its rounding.

  Arrays: a one-dimensional array is the list of its values, a two- or three-dimensional
  array a nested list in row-major order together with its \<open>shape\<close>.

  Arguments: \<^verbatim>\<open>lat\<close> takes part in elementwise arithmetic (line 21), so it is a
  one-dimensional NumPy or xarray array, given by its values; a plain Python list for
  \<^verbatim>\<open>lat\<close> raises a \<^verbatim>\<open>TypeError\<close> on line 21 before anything else happens, and is not among
  the arguments modelled here. Of \<^verbatim>\<open>lon\<close> only the length and the values as labels are
  used. For \<^verbatim>\<open>depth\<close> the code reads the attribute \<^verbatim>\<open>depth.data\<close> (line 48), so the kind
  of object matters and is kept.
\<close>

subsection \<open>Python values and errors\<close>

datatype py_error = IndexError | AttributeError | ValueError

text \<open>
  The kinds of sequence modelled for \<^verbatim>\<open>depth\<close>: a plain Python list, a bare
  one-dimensional NumPy array, or an xarray object (a \<^verbatim>\<open>DataArray\<close> or \<^verbatim>\<open>Variable\<close>)
  whose single dimension is named \<^verbatim>\<open>depth\<close>, as a depth coordinate taken from a dataset
  is. \<open>XrArray\<close> stands for such an object only: an xarray object along a dimension of
  another name makes \<^verbatim>\<open>expand_dims\<close> on line 44 raise a \<^verbatim>\<open>KeyError\<close>, and is not among
  the arguments modelled here.
\<close>

datatype array_like = PyList "real list" | NdArray "real list" | XrArray "real list"

fun values_of :: "array_like \<Rightarrow> real list" where
  "values_of (PyList xs) = xs"
| "values_of (NdArray xs) = xs"
| "values_of (XrArray xs) = xs"

text \<open>
  The attribute lookup \<^verbatim>\<open>depth.data\<close>. A Python list has no such attribute. A NumPy
  array has one: the buffer over its elements, which xarray reads back as the same values.
  An xarray object has one: the array it wraps.
\<close>

fun attr_data :: "array_like \<Rightarrow> py_error + real list" where
  "attr_data (PyList xs) = Inl AttributeError"
| "attr_data (NdArray xs) = Inr xs"
| "attr_data (XrArray xs) = Inr xs"

text \<open>\<^verbatim>\<open>xs[-1]\<close>: the last element, an \<^verbatim>\<open>IndexError\<close> on an empty array.\<close>

fun py_last :: "'a list \<Rightarrow> py_error + 'a" where
  "py_last [] = Inl IndexError"
| "py_last (x # xs) = Inr (last (x # xs))"

text \<open>A Python \<^verbatim>\<open>dict\<close> with string keys, in insertion order.\<close>

type_synonym py_dict = "(string \<times> string) list"

fun dict_set :: "string \<Rightarrow> string \<Rightarrow> py_dict \<Rightarrow> py_dict" where
  "dict_set k v [] = [(k, v)]"
| "dict_set k v ((k', v') # d) = (if k = k' then (k, v) # d else (k', v') # dict_set k v d)"

definition dict_update :: "py_dict \<Rightarrow> py_dict \<Rightarrow> py_dict" where
  "dict_update d new = foldl (\<lambda>acc (k, v). dict_set k v acc) d new"

definition dict_get :: "py_dict \<Rightarrow> string \<Rightarrow> string option" where
  "dict_get d k = map_of d k"

subsection \<open>Labelled arrays\<close>

text \<open>A coordinate variable: the dimension it runs along, its labels and its attributes.\<close>

record coord_var =
  cdim :: string
  cvalues :: "real list"
  cattrs :: py_dict

text \<open>An \<^verbatim>\<open>xarray.DataArray\<close>; \<open>'a\<close> is the nested list holding the numbers.\<close>

record 'a data_array =
  data :: 'a
  shape :: "nat list"
  dims :: "string list"
  coords :: "(string \<times> coord_var) list"
  name :: string
  attrs :: py_dict

definition coord_set :: "string \<Rightarrow> coord_var \<Rightarrow> (string \<times> coord_var) list \<Rightarrow> (string \<times> coord_var) list" where
  "coord_set k v cs = (if k \<in> fst ` set cs then map (\<lambda>(k', v'). if k' = k then (k, v) else (k', v')) cs
                       else cs @ [(k, v)])"

definition coord_get :: "(string \<times> coord_var) list \<Rightarrow> string \<Rightarrow> coord_var option" where
  "coord_get cs k = map_of cs k"

subsection \<open>The NumPy and xarray operations the function calls\<close>

text \<open>\<^verbatim>\<open>np.append(arr, v)\<close> with a scalar \<open>v\<close>.\<close>

definition np_append :: "real list \<Rightarrow> real \<Rightarrow> real list" where
  "np_append arr v = arr @ [v]"

text \<open>\<^verbatim>\<open>a[:, np.newaxis]\<close>: each element becomes a row of length one.\<close>

definition newaxis_col :: "'a list \<Rightarrow> 'a list list" where
  "newaxis_col a = map (\<lambda>x. [x]) a"

text \<open>\<^verbatim>\<open>np.tile(a, (1, n))\<close> on a two-dimensional array: every row is repeated \<open>n\<close> times side by side.\<close>

definition np_tile_1n :: "'a list list \<Rightarrow> nat \<Rightarrow> 'a list list" where
  "np_tile_1n a n = map (\<lambda>row. concat (replicate n row)) a"

text \<open>
  \<^verbatim>\<open>da.expand_dims(depth=labels)\<close>: a new leading dimension with one copy of the data
  for each label, and an index coordinate holding the labels. The labels are the values
  of a list, of a NumPy array or of an xarray object along the dimension of that name;
  for these the call raises nothing. Coordinates are looked up by name, so the place of
  the new coordinate among the others is not modelled.
\<close>

definition expand_dims :: "string \<Rightarrow> real list \<Rightarrow> (real list list) data_array \<Rightarrow> (real list list list) data_array" where
  "expand_dims d labels da =
     \<lparr> data = replicate (length labels) (data da),
       shape = length labels # shape da,
       dims = d # dims da,
       coords = coord_set d \<lparr> cdim = d, cvalues = labels, cattrs = [] \<rparr> (coords da),
       name = name da,
       attrs = attrs da \<rparr>"

text \<open>The position of the first occurrence of \<open>x\<close> in a list (its length when absent).\<close>

fun index_of :: "'a list \<Rightarrow> 'a \<Rightarrow> nat" where
  "index_of [] x = 0"
| "index_of (y # ys) x = (if x = y then 0 else Suc (index_of ys x))"

text \<open>
  \<^verbatim>\<open>np.transpose(a, perm)\<close> on a three-dimensional array of shape \<open>shp\<close>: axis \<open>m\<close> of the
  result is axis \<open>perm ! m\<close> of \<open>a\<close>.
\<close>

definition transpose3 :: "nat list \<Rightarrow> nat list \<Rightarrow> 'a list list list \<Rightarrow> 'a list list list" where
  "transpose3 perm shp a =
     map (\<lambda>i0. map (\<lambda>i1. map (\<lambda>i2.
            let ix = [i0, i1, i2];
                j0 = ix ! index_of perm 0;
                j1 = ix ! index_of perm 1;
                j2 = ix ! index_of perm 2
            in a ! j0 ! j1 ! j2)
          [0 ..< shp ! (perm ! 2)])
        [0 ..< shp ! (perm ! 1)])
      [0 ..< shp ! (perm ! 0)]"

text \<open>
  \<^verbatim>\<open>da.transpose(*names)\<close> on a three-dimensional array: a \<^verbatim>\<open>ValueError\<close> unless the
  names are the array's dimensions in some order.
\<close>

definition transpose_da :: "string list \<Rightarrow> (real list list list) data_array \<Rightarrow> py_error + (real list list list) data_array" where
  "transpose_da names da =
     (if length names = 3 \<and> distinct names \<and> set names = set (dims da) then
        let perm = map (index_of (dims da)) names
        in Inr (da \<lparr> data := transpose3 perm (shape da) (data da),
                     shape := map (\<lambda>p. shape da ! p) perm,
                     dims := names \<rparr>)
      else Inl ValueError)"

text \<open>\<^verbatim>\<open>da.assign_coords(k=(dim, values, attrs))\<close>: the coordinate \<open>k\<close> is replaced.\<close>

definition assign_coords :: "string \<Rightarrow> coord_var \<Rightarrow> 'a data_array \<Rightarrow> 'a data_array" where
  "assign_coords k v da = da \<lparr> coords := coord_set k v (coords da) \<rparr>"

subsection \<open>The function\<close>

definition R :: real where
  "R = 6371000"

definition deg_to_rad :: real where
  "deg_to_rad = pi / 180"

text \<open>Lines 21 to 23: the latitude bounds.\<close>

definition lat_edges :: "real list \<Rightarrow> py_error + real list" where
  "lat_edges lat =
     (case py_last lat of
        Inl e \<Rightarrow> Inl e
      | Inr lat_last \<Rightarrow> Inr (np_append (map (\<lambda>x. x - 0.25) lat) (lat_last + 0.25)))"

text \<open>Lines 26 to 31: the area of one cell of each latitude row.\<close>

definition area_row :: "real list \<Rightarrow> real list" where
  "area_row edges =
     (let lat_north = tl edges;
          lat_south = butlast edges;
          lat_north_rad = map (\<lambda>x. x * deg_to_rad) lat_north;
          lat_south_rad = map (\<lambda>x. x * deg_to_rad) lat_south;
          delta_lambda = 0.25 * deg_to_rad
      in map (\<lambda>d. R ^ 2 * delta_lambda * d)
             (map2 (\<lambda>n s. n - s) (map sin lat_north_rad) (map sin lat_south_rad)))"

text \<open>Lines 32 to 41: the row areas extended across longitude, as a labelled array.\<close>

definition area_2d_da :: "real list \<Rightarrow> real list \<Rightarrow> py_error + (real list list) data_array" where
  "area_2d_da lat lon =
     (case lat_edges lat of
        Inl e \<Rightarrow> Inl e
      | Inr edges \<Rightarrow>
          let area_2d = np_tile_1n (newaxis_col (area_row edges)) (length lon)
          in Inr \<lparr> data = area_2d,
                   shape = [length area_2d, length lon],
                   dims = [''lat'', ''lon''],
                   coords = [(''lat'', \<lparr> cdim = ''lat'', cvalues = lat, cattrs = [] \<rparr>),
                             (''lon'', \<lparr> cdim = ''lon'', cvalues = lon, cattrs = [] \<rparr>)],
                   name = ''cell_area'',
                   attrs = [(''units'', ''m^2''),
                            (''description'', ''Area of each 1x1 degree grid cell'')] \<rparr>)"

text \<open>Lines 44 to 53.\<close>

definition compute_3d_area :: "real list \<Rightarrow> real list \<Rightarrow> array_like \<Rightarrow> py_error + (real list list list) data_array" where
  "compute_3d_area lat lon depth =
     (case area_2d_da lat lon of
        Inl e \<Rightarrow> Inl e
      | Inr a2 \<Rightarrow>
         (case transpose_da [''lat'', ''lon'', ''depth''] (expand_dims ''depth'' (values_of depth) a2) of
            Inl e \<Rightarrow> Inl e
          | Inr a3 \<Rightarrow>
             (case attr_data depth of
                Inl e \<Rightarrow> Inl e
              | Inr depth_data \<Rightarrow>
                  let a3 = assign_coords ''depth''
                             \<lparr> cdim = ''depth'', cvalues = depth_data,
                               cattrs = [(''units'', ''m''), (''description'', ''Depth levels'')] \<rparr> a3;
                      a3 = a3 \<lparr> name := ''3D_area'' \<rparr>;
                      a3 = a3 \<lparr> attrs := dict_update (attrs a3)
                                 [(''description'', ''3D area of grid cells over depth''),
                                  (''units'', ''m^2'')] \<rparr>
                  in Inr a3)))"

subsection \<open>Notions of the specification\<close>

text \<open>
  The cell edges in the specification's words: the sequence \<^verbatim>\<open>lat - 0.25\<close> with
  \<^verbatim>\<open>lat[last] + 0.25\<close> appended.
\<close>

definition spec_edges :: "real list \<Rightarrow> real list" where
  "spec_edges lat = map (\<lambda>x. x - 0.25) lat @ [last lat + 0.25]"

text \<open>Cell centres half a degree apart, each the previous one plus 0.5.\<close>

fun half_degree_spaced :: "real list \<Rightarrow> bool" where
  "half_degree_spaced [] = True"
| "half_degree_spaced [x] = True"
| "half_degree_spaced (x # y # ys) = (y = x + 0.5 \<and> half_degree_spaced (y # ys))"

text \<open>The slices \<^verbatim>\<open>output[:, :, d]\<close> and \<^verbatim>\<open>output[:, j, :]\<close> of a three-dimensional array.\<close>

definition depth_slice :: "'a list list list \<Rightarrow> nat \<Rightarrow> 'a list list" where
  "depth_slice a d = map (map (\<lambda>cell. cell ! d)) a"

definition lon_slice :: "'a list list list \<Rightarrow> nat \<Rightarrow> 'a list list" where
  "lon_slice a j = map (\<lambda>row. row ! j) a"

text \<open>
  The description of the two-dimensional field as the specification prints it: between the
  two digits it has the multiplication sign U+00D7, in UTF-8 the bytes C3 97.
\<close>

definition spec_description_2d :: string where
  "spec_description_2d = ''Area of each 1'' @ [CHR 0xC3, CHR 0x97] @ ''1 degree grid cell''"

section \<open>Properties\<close>

subsection \<open>What the operations compute\<close>

lemma lat_edges_nonempty:
  "lat \<noteq> [] \<Longrightarrow> lat_edges lat = Inr (map (\<lambda>x. x - 0.25) lat @ [last lat + 0.25])"
  by (cases lat) (simp_all add: lat_edges_def np_append_def)

lemma lat_edges_empty: "lat_edges [] = Inl IndexError"
  by (simp add: lat_edges_def)

lemma length_area_row: "length (area_row edges) = length edges - 1"
  by (simp add: area_row_def Let_def)

lemma nth_area_row:
  assumes "Suc i < length edges"
  shows "area_row edges ! i =
           R ^ 2 * (0.25 * deg_to_rad) * (sin (edges ! Suc i * deg_to_rad) - sin (edges ! i * deg_to_rad))"
  using assms by (simp add: area_row_def Let_def nth_tl nth_butlast)

lemma tile_newaxis: "np_tile_1n (newaxis_col xs) n = map (replicate n) xs"
proof -
  have "concat (replicate n [x]) = replicate n x" for x :: 'a
    by (induction n) simp_all
  then show ?thesis by (simp add: np_tile_1n_def newaxis_col_def)
qed

lemma transpose3_120:
  "transpose3 [1, 2, 0] [K, I, J] a =
     map (\<lambda>i. map (\<lambda>j. map (\<lambda>k. a ! k ! i ! j) [0 ..< K]) [0 ..< J]) [0 ..< I]"
  by (simp add: transpose3_def Let_def)

lemma map_upt_const: "map (\<lambda>i. c) [0 ..< n] = replicate n c"
  by (induction n) (simp_all add: replicate_append_same)

lemma transpose3_replicate:
  assumes "\<forall>row \<in> set a2. length row = J" "length a2 = I"
  shows "transpose3 [1, 2, 0] [K, I, J] (replicate K a2) = map (\<lambda>row. map (\<lambda>v. replicate K v) row) a2"
proof -
  have "map (\<lambda>i. map (\<lambda>j. map (\<lambda>k. replicate K a2 ! k ! i ! j) [0 ..< K]) [0 ..< J]) [0 ..< I]
      = map (\<lambda>i. map (\<lambda>j. replicate K (a2 ! i ! j)) [0 ..< J]) [0 ..< I]"
    by (simp add: map_upt_const[symmetric])
  also have "\<dots> = map (\<lambda>i. map (\<lambda>v. replicate K v) (a2 ! i)) [0 ..< I]"
    using assms by (auto simp: list_eq_iff_nth_eq)
  also have "\<dots> = map (\<lambda>row. map (\<lambda>v. replicate K v) row) a2"
    using assms by (auto simp: list_eq_iff_nth_eq)
  finally show ?thesis by (simp only: transpose3_120)
qed

lemma area_2d_da_nonempty:
  assumes "lat \<noteq> []"
  shows "area_2d_da lat lon =
     Inr \<lparr> data = map (replicate (length lon)) (area_row (map (\<lambda>x. x - 0.25) lat @ [last lat + 0.25])),
           shape = [length lat, length lon],
           dims = [''lat'', ''lon''],
           coords = [(''lat'', \<lparr> cdim = ''lat'', cvalues = lat, cattrs = [] \<rparr>),
                     (''lon'', \<lparr> cdim = ''lon'', cvalues = lon, cattrs = [] \<rparr>)],
           name = ''cell_area'',
           attrs = [(''units'', ''m^2''), (''description'', ''Area of each 1x1 degree grid cell'')] \<rparr>"
  using assms
  by (simp add: area_2d_da_def lat_edges_nonempty tile_newaxis length_area_row Let_def)

lemma expand_transpose:
  assumes "\<forall>row \<in> set (data a2). length row = J" "length (data a2) = I" "shape a2 = [I, J]"
    "dims a2 = [''lat'', ''lon'']"
  shows "transpose_da [''lat'', ''lon'', ''depth''] (expand_dims ''depth'' labels a2) =
     Inr \<lparr> data = map (\<lambda>row. map (\<lambda>v. replicate (length labels) v) row) (data a2),
           shape = [I, J, length labels],
           dims = [''lat'', ''lon'', ''depth''],
           coords = coord_set ''depth'' \<lparr> cdim = ''depth'', cvalues = labels, cattrs = [] \<rparr> (coords a2),
           name = name a2,
           attrs = attrs a2 \<rparr>"
proof -
  have perm: "map (index_of [''depth'', ''lat'', ''lon'']) [''lat'', ''lon'', ''depth''] = [1, 2, 0]"
    by simp
  have ok: "set [''lat'', ''lon'', ''depth''] = set [''depth'', ''lat'', ''lon'']"
    by auto
  have tr: "transpose3 [1, 2, 0] [length labels, I, J] (replicate (length labels) (data a2))
      = map (\<lambda>row. map (\<lambda>v. replicate (length labels) v) row) (data a2)"
    using assms(1,2) by (rule transpose3_replicate)
  show ?thesis
    unfolding transpose_da_def expand_dims_def
    using assms(3,4) ok tr by (simp add: Let_def numeral_2_eq_2)
qed


lemma attr_data_values: "attr_data depth = Inr d \<Longrightarrow> d = values_of depth"
  by (cases depth) simp_all

lemma dict_update_final:
  "dict_update [(''units'', ''m^2''), (''description'', ''Area of each 1x1 degree grid cell'')]
       [(''description'', ''3D area of grid cells over depth''), (''units'', ''m^2'')]
   = [(''units'', ''m^2''), (''description'', ''3D area of grid cells over depth'')]"
  by (simp add: dict_update_def)

lemma compute_3d_area_result:
  assumes "lat \<noteq> []" and "attr_data depth = Inr d"
  shows "compute_3d_area lat lon depth =
     Inr \<lparr> data = map (\<lambda>a. replicate (length lon) (replicate (length d) a))
                     (area_row (map (\<lambda>x. x - 0.25) lat @ [last lat + 0.25])),
           shape = [length lat, length lon, length d],
           dims = [''lat'', ''lon'', ''depth''],
           coords = [(''lat'', \<lparr> cdim = ''lat'', cvalues = lat, cattrs = [] \<rparr>),
                     (''lon'', \<lparr> cdim = ''lon'', cvalues = lon, cattrs = [] \<rparr>),
                     (''depth'', \<lparr> cdim = ''depth'', cvalues = d,
                                   cattrs = [(''units'', ''m''), (''description'', ''Depth levels'')] \<rparr>)],
           name = ''3D_area'',
           attrs = [(''units'', ''m^2''), (''description'', ''3D area of grid cells over depth'')] \<rparr>"
proof -
  define rows where "rows = area_row (map (\<lambda>x. x - 0.25) lat @ [last lat + 0.25])"
  define a2 where "a2 = \<lparr> data = map (replicate (length lon)) rows,
           shape = [length lat, length lon],
           dims = [''lat'', ''lon''],
           coords = [(''lat'', \<lparr> cdim = ''lat'', cvalues = lat, cattrs = [] \<rparr>),
                     (''lon'', \<lparr> cdim = ''lon'', cvalues = lon, cattrs = [] \<rparr>)],
           name = ''cell_area'',
           attrs = [(''units'', ''m^2''), (''description'', ''Area of each 1x1 degree grid cell'')] \<rparr>"
  have d: "values_of depth = d"
    using attr_data_values[OF assms(2)] by simp
  have len: "length rows = length lat"
    by (simp add: rows_def length_area_row)
  have a2: "area_2d_da lat lon = Inr a2"
    unfolding a2_def rows_def using assms(1) by (rule area_2d_da_nonempty)
  have "transpose_da [''lat'', ''lon'', ''depth''] (expand_dims ''depth'' d a2) =
     Inr \<lparr> data = map (\<lambda>row. map (\<lambda>v. replicate (length d) v) row) (data a2),
           shape = [length lat, length lon, length d],
           dims = [''lat'', ''lon'', ''depth''],
           coords = coord_set ''depth'' \<lparr> cdim = ''depth'', cvalues = d, cattrs = [] \<rparr> (coords a2),
           name = name a2,
           attrs = attrs a2 \<rparr>"
    by (rule expand_transpose) (simp_all add: a2_def len)
  then have "compute_3d_area lat lon depth =
     Inr \<lparr> data = map (\<lambda>a. replicate (length lon) (replicate (length d) a)) rows,
           shape = [length lat, length lon, length d],
           dims = [''lat'', ''lon'', ''depth''],
           coords = [(''lat'', \<lparr> cdim = ''lat'', cvalues = lat, cattrs = [] \<rparr>),
                     (''lon'', \<lparr> cdim = ''lon'', cvalues = lon, cattrs = [] \<rparr>),
                     (''depth'', \<lparr> cdim = ''depth'', cvalues = d,
                                   cattrs = [(''units'', ''m''), (''description'', ''Depth levels'')] \<rparr>)],
           name = ''3D_area'',
           attrs = [(''units'', ''m^2''), (''description'', ''3D area of grid cells over depth'')] \<rparr>"
    unfolding compute_3d_area_def a2 d
    by (simp add: assms(2) a2_def assign_coords_def coord_set_def dict_update_final)
  then show ?thesis
    by (simp only: rows_def)
qed

lemma compute_3d_area_empty_lat: "compute_3d_area [] lon depth = Inl IndexError"
  by (simp add: compute_3d_area_def area_2d_da_def lat_edges_def)

subsection \<open>Auxiliary facts about the result\<close>

lemma nth_spec_edges_lt: "i < length lat \<Longrightarrow> spec_edges lat ! i = lat ! i - 0.25"
  by (simp add: spec_edges_def nth_append)

lemma nth_spec_edges_last: "spec_edges lat ! length lat = last lat + 0.25"
  by (simp add: spec_edges_def nth_append)

lemma length_spec_edges: "length (spec_edges lat) = length lat + 1"
  by (simp add: spec_edges_def)

lemma compute_3d_area_data:
  assumes "compute_3d_area lat lon depth = Inr out"
  shows "lat \<noteq> [] \<and> data out = map (\<lambda>a. replicate (length lon) (replicate (length (values_of depth)) a))
                     (area_row (spec_edges lat))"
proof -
  have ne: "lat \<noteq> []"
    using assms by (auto simp: compute_3d_area_empty_lat)
  obtain d where d: "attr_data depth = Inr d"
    using assms ne by (cases depth) (auto simp: compute_3d_area_def area_2d_da_nonempty split: sum.splits)
  show ?thesis
    using assms compute_3d_area_result[OF ne d, of lon] attr_data_values[OF d] ne
    by (auto simp: spec_edges_def)
qed

lemma compute_3d_area_nth:
  assumes "compute_3d_area lat lon depth = Inr out"
    and "i < length lat" "j < length lon" "k < length (values_of depth)"
  shows "data out ! i ! j ! k = area_row (spec_edges lat) ! i"
  using compute_3d_area_data[OF assms(1)] assms(2-4)
  by (simp add: length_area_row length_spec_edges)

lemma area_value_at:
  assumes "compute_3d_area lat lon depth = Inr out"
    and "i < length lat" "j < length lon" "k < length (values_of depth)"
  shows "data out ! i ! j ! k =
           6371000 ^ 2 * (0.25 * pi / 180) *
             (sin (spec_edges lat ! Suc i * pi / 180) - sin (spec_edges lat ! i * pi / 180))"
proof -
  have "Suc i < length (spec_edges lat)"
    using assms(2) by (simp add: length_spec_edges)
  then have "area_row (spec_edges lat) ! i =
      R ^ 2 * (0.25 * deg_to_rad) *
        (sin (spec_edges lat ! Suc i * deg_to_rad) - sin (spec_edges lat ! i * deg_to_rad))"
    by (rule nth_area_row)
  then show ?thesis
    using compute_3d_area_nth[OF assms] by (simp add: R_def deg_to_rad_def)
qed

lemma compute_3d_area_returns:
  assumes "lat \<noteq> []" and "attr_data depth = Inr d"
  shows "\<exists>out. compute_3d_area lat lon depth = Inr out"
  using compute_3d_area_result[OF assms, of lon] by simp

lemma half_degree_spaced_nth:
  "half_degree_spaced lat \<Longrightarrow> Suc i < length lat \<Longrightarrow> lat ! Suc i = lat ! i + 0.5"
proof (induction lat arbitrary: i rule: half_degree_spaced.induct)
  case (3 x y ys)
  show ?case
  proof (cases i)
    case 0
    then show ?thesis using "3.prems" by simp
  next
    case (Suc n)
    from "3.prems"(1) have spaced: "half_degree_spaced (y # ys)"
      by auto
    from "3.prems"(2) Suc have "Suc n < length (y # ys)"
      by simp
    with spaced have "(y # ys) ! Suc n = (y # ys) ! n + 0.5"
      by (rule "3.IH")
    then show ?thesis using Suc by simp
  qed
qed simp_all

lemma nth_spec_edges_north:
  assumes "half_degree_spaced lat" and "i < length lat"
  shows "spec_edges lat ! Suc i = lat ! i + 0.25"
proof (cases "Suc i < length lat")
  case True
  then show ?thesis
    using half_degree_spaced_nth[OF assms(1) True] by (simp add: nth_spec_edges_lt)
next
  case False
  with assms(2) have i: "Suc i = length lat" by simp
  then have "lat \<noteq> []" and "length lat - 1 = i" by auto
  then have "last lat = lat ! i"
    by (simp add: last_conv_nth)
  then show ?thesis
    using nth_spec_edges_last[of lat] i by simp
qed

lemma sin_strip: "sin ((l + 0.25) * pi / 180) - sin ((l - 0.25) * pi / 180)
   = 2 * cos (l * pi / 180) * sin (0.25 * pi / 180)" for l :: real
proof -
  have north: "(l + 0.25) * pi / 180 = l * pi / 180 + 0.25 * pi / 180"
    by (simp only: distrib_right add_divide_distrib)
  have south: "(l - 0.25) * pi / 180 = l * pi / 180 - 0.25 * pi / 180"
    by (simp only: left_diff_distrib diff_divide_distrib)
  show ?thesis
    unfolding north south sin_add sin_diff by (simp only: algebra_simps)
qed

lemma sin_quarter_degree_pos: "0 < sin (0.25 * pi / 180)"
proof (rule sin_gt_zero)
  show "0 < 0.25 * pi / 180" by simp
  have "0.25 * pi / 180 = pi / 720" by simp
  then show "0.25 * pi / 180 < pi" using pi_gt_zero by simp
qed

lemma cos_degrees_nonneg:
  assumes "- 90 \<le> l" "l \<le> 90"
  shows "0 \<le> cos (l * pi / 180)"
proof (rule cos_ge_zero)
  have "l * pi \<le> 90 * pi"
    using mult_right_mono[OF assms(2) pi_ge_zero] .
  then show "l * pi / 180 \<le> pi / 2" by simp
  have "- 90 * pi \<le> l * pi"
    using mult_right_mono[OF assms(1) pi_ge_zero] .
  then show "- (pi / 2) \<le> l * pi / 180" by simp
qed

lemma area_bounds_at:
  assumes "compute_3d_area lat lon depth = Inr out"
    and "half_degree_spaced lat"
    and "\<forall>x \<in> set lat. - 90 \<le> x \<and> x \<le> 90"
    and "i < length lat" "j < length lon" "k < length (values_of depth)"
  shows "0 \<le> data out ! i ! j ! k \<and> data out ! i ! j ! k \<le> 2 * 6371000 ^ 2 * (0.25 * pi / 180)"
proof -
  define l where "l = lat ! i"
  define c where "c = cos (l * pi / 180)"
  define s where "s = sin (0.25 * pi / 180)"
  have range: "- 90 \<le> l" "l \<le> 90"
    using assms(3,4) by (simp_all add: l_def)
  have south: "spec_edges lat ! i = l - 0.25"
    using assms(4) by (simp add: nth_spec_edges_lt l_def)
  have north: "spec_edges lat ! Suc i = l + 0.25"
    using nth_spec_edges_north[OF assms(2,4)] by (simp add: l_def)
  have "data out ! i ! j ! k =
      6371000 ^ 2 * (0.25 * pi / 180) *
        (sin (spec_edges lat ! Suc i * pi / 180) - sin (spec_edges lat ! i * pi / 180))"
    using assms(1,4,5,6) by (rule area_value_at)
  then have val: "data out ! i ! j ! k = 6371000 ^ 2 * (0.25 * pi / 180) * (2 * c * s)"
    unfolding north south sin_strip c_def s_def .
  have c: "0 \<le> c" "c \<le> 1"
    using cos_degrees_nonneg[OF range] by (simp_all add: c_def)
  have s: "0 \<le> s" "s \<le> 1"
    using sin_quarter_degree_pos by (simp_all add: s_def)
  have cs: "0 \<le> c * s" "c * s \<le> 1"
    using c s by (simp_all add: mult_le_one)
  have k: "(0::real) \<le> 6371000 ^ 2 * (0.25 * pi / 180)"
    by simp
  have "0 \<le> 6371000 ^ 2 * (0.25 * pi / 180) * (2 * c * s)"
    using k cs(1) by (simp add: mult_nonneg_nonneg)
  moreover have "6371000 ^ 2 * (0.25 * pi / 180) * (2 * c * s) \<le> 6371000 ^ 2 * (0.25 * pi / 180) * 2"
    using k cs(2) by (intro mult_left_mono) simp_all
  ultimately show ?thesis
    unfolding val by simp
qed

lemma depth_slice_result:
  assumes "compute_3d_area lat lon depth = Inr out" and "d < length (values_of depth)"
  shows "depth_slice (data out) d = map (replicate (length lon)) (area_row (spec_edges lat))"
  using compute_3d_area_data[OF assms(1)] assms(2) by (simp add: depth_slice_def)

lemma lon_slice_result:
  assumes "compute_3d_area lat lon depth = Inr out" and "j < length lon"
  shows "lon_slice (data out) j = map (replicate (length (values_of depth))) (area_row (spec_edges lat))"
  using compute_3d_area_data[OF assms(1)] assms(2) by (simp add: lon_slice_def)

lemma sum_rows_telescope:
  assumes "compute_3d_area lat lon depth = Inr out"
    and "j < length lon" "k < length (values_of depth)"
  shows "(\<Sum>i<length lat. data out ! i ! j ! k) =
           6371000 ^ 2 * (0.25 * pi / 180) *
             (sin (spec_edges lat ! length lat * pi / 180) - sin (spec_edges lat ! 0 * pi / 180))"
proof -
  define g where "g i = sin (spec_edges lat ! i * pi / 180)" for i
  have "(\<Sum>i<length lat. data out ! i ! j ! k) =
        (\<Sum>i<length lat. 6371000 ^ 2 * (0.25 * pi / 180) * (g (Suc i) - g i))"
    using area_value_at[OF assms(1) _ assms(2,3)] by (intro sum.cong) (simp_all add: g_def)
  also have "\<dots> = 6371000 ^ 2 * (0.25 * pi / 180) * (\<Sum>i<length lat. g (Suc i) - g i)"
    by (simp only: sum_distrib_left)
  also have "(\<Sum>i<length lat. g (Suc i) - g i) = g (length lat) - g 0"
    by (rule sum_lessThan_telescope)
  finally show ?thesis
    by (simp only: g_def)
qed



subsection \<open>Values of the returned array\<close>

text \<open>
  Claim C1. For a non-empty \<^verbatim>\<open>lat\<close> (and a \<^verbatim>\<open>depth\<close> that has a \<^verbatim>\<open>data\<close> attribute) the
  function returns, and the value of the output at latitude index \<open>i\<close>, for every longitude
  index \<open>j\<close> and depth index \<open>k\<close>, is
  \<open>R^2 * (0.25 * pi / 180) * (sin (edges[i+1] * pi / 180) - sin (edges[i] * pi / 180))\<close>
  with \<open>R = 6371000\<close>, where \<open>edges\<close> is \<^verbatim>\<open>lat - 0.25\<close> with \<^verbatim>\<open>lat[last] + 0.25\<close>
  appended and has \<open>len(lat) + 1\<close> values. The latitudes need not be ascending for this.
\<close>

theorem area_value_formula:
  assumes "lat \<noteq> []" and "attr_data depth = Inr d"
    and "i < length lat" "j < length lon" "k < length d"
  shows "\<exists>out. compute_3d_area lat lon depth = Inr out
      \<and> data out ! i ! j ! k =
           6371000 ^ 2 * (0.25 * pi / 180) *
             (sin (spec_edges lat ! (i + 1) * pi / 180) - sin (spec_edges lat ! i * pi / 180))
      \<and> length (spec_edges lat) = length lat + 1"
proof -
  obtain out where out: "compute_3d_area lat lon depth = Inr out"
    using compute_3d_area_returns[OF assms(1,2)] by blast
  have k: "k < length (values_of depth)"
    using assms(5) attr_data_values[OF assms(2)] by simp
  show ?thesis
    using out area_value_at[OF out assms(3,4) k] by (simp add: length_spec_edges)
qed

theorem area_value_formula_witness:
  "\<exists>out. compute_3d_area [0, 0.5] [0, 0.5] (XrArray [0, 10]) = Inr out
      \<and> data out ! 1 ! 0 ! 1 =
           6371000 ^ 2 * (0.25 * pi / 180) *
             (sin (spec_edges [0, 0.5] ! (1 + 1) * pi / 180) - sin (spec_edges [0, 0.5] ! 1 * pi / 180))
      \<and> length (spec_edges [0, 0.5]) = length [0, 0.5 :: real] + 1"
  by (rule area_value_formula[where d = "[0, 10]"]) simp_all

text \<open>
  Claim C2. For a non-empty \<^verbatim>\<open>lat\<close> and a \<^verbatim>\<open>depth\<close> that has a \<^verbatim>\<open>data\<close> attribute the
  function returns an array of shape \<open>(len(lat), len(lon), len(depth))\<close> whose axes are
  (latitude, longitude, depth): the recorded shape and dimension names say so, and the
  nested data has these lengths at every level. \<^verbatim>\<open>lon\<close> and \<^verbatim>\<open>depth\<close> may even be empty.
\<close>

theorem result_shape:
  assumes "lat \<noteq> []" and "attr_data depth = Inr d"
  shows "\<exists>out. compute_3d_area lat lon depth = Inr out
      \<and> shape out = [length lat, length lon, length (values_of depth)]
      \<and> dims out = [''lat'', ''lon'', ''depth'']
      \<and> length (data out) = length lat
      \<and> (\<forall>row \<in> set (data out). length row = length lon
            \<and> (\<forall>cell \<in> set row. length cell = length (values_of depth)))"
  using compute_3d_area_result[OF assms, of lon] attr_data_values[OF assms(2)]
  by (auto simp: length_area_row)

theorem result_shape_witness:
  "\<exists>out. compute_3d_area [0, 0.5] [0, 0.5, 1] (XrArray [0, 10, 100, 1000]) = Inr out
      \<and> shape out = [2, 3, 4]
      \<and> dims out = [''lat'', ''lon'', ''depth'']
      \<and> length (data out) = 2"
  using result_shape[of "[0, 0.5]" "XrArray [0, 10, 100, 1000]" "[0, 10, 100, 1000]" "[0, 0.5, 1]"]
  by auto

text \<open>
  Claim C3. For valid latitudes, that is cell centres half a degree apart as the input
  contract has them, all within \<open>[-90, 90]\<close>, the function returns and every value of the
  output is at least 0 and bounded (by \<open>2 * R^2 * (0.25 * pi / 180)\<close>); over the reals
  this bound is what finiteness amounts to.
\<close>

theorem area_nonneg_bounded:
  assumes "lat \<noteq> []" and "attr_data depth = Inr d"
    and "half_degree_spaced lat"
    and "\<forall>x \<in> set lat. - 90 \<le> x \<and> x \<le> 90"
    and "i < length lat" "j < length lon" "k < length d"
  shows "\<exists>out. compute_3d_area lat lon depth = Inr out
      \<and> 0 \<le> data out ! i ! j ! k
      \<and> data out ! i ! j ! k \<le> 2 * 6371000 ^ 2 * (0.25 * pi / 180)"
proof -
  obtain out where out: "compute_3d_area lat lon depth = Inr out"
    using compute_3d_area_returns[OF assms(1,2)] by blast
  have k: "k < length (values_of depth)"
    using assms(7) attr_data_values[OF assms(2)] by simp
  show ?thesis
    using out area_bounds_at[OF out assms(3,4,5,6) k] by simp
qed

theorem area_nonneg_bounded_witness:
  "half_degree_spaced [89.5, 90]
   \<and> (\<exists>out. compute_3d_area [89.5, 90] [0] (XrArray [0, 10]) = Inr out
      \<and> 0 \<le> data out ! 1 ! 0 ! 1
      \<and> data out ! 1 ! 0 ! 1 \<le> 2 * 6371000 ^ 2 * (0.25 * pi / 180))"
proof
  show "half_degree_spaced [89.5, 90]"
    by simp
  show "\<exists>out. compute_3d_area [89.5, 90] [0] (XrArray [0, 10]) = Inr out
      \<and> 0 \<le> data out ! 1 ! 0 ! 1
      \<and> data out ! 1 ! 0 ! 1 \<le> 2 * 6371000 ^ 2 * (0.25 * pi / 180)"
    by (rule area_nonneg_bounded[where d = "[0, 10]"]) simp_all
qed

text \<open>
  The spacing matters: latitudes that ascend within the range but are closer than half a
  degree near the south pole give a negative value.
\<close>

lemma irregular_spacing_negative:
  "\<exists>out. compute_3d_area [- 90, - 89.9] [0] (XrArray [0]) = Inr out \<and> data out ! 0 ! 0 ! 0 < 0"
proof -
  obtain out where out: "compute_3d_area [- 90, - 89.9] [0] (XrArray [0]) = Inr out"
    using compute_3d_area_returns[of "[- 90, - 89.9]" "XrArray [0]" "[0]" "[0]"] by auto
  define a :: real where "a = 0.15 * pi / 180"
  define b :: real where "b = 0.25 * pi / 180"
  have val: "data out ! 0 ! 0 ! 0 =
      6371000 ^ 2 * (0.25 * pi / 180) *
        (sin (spec_edges [- 90, - 89.9] ! Suc 0 * pi / 180) - sin (spec_edges [- 90, - 89.9] ! 0 * pi / 180))"
    by (rule area_value_at[OF out]) simp_all
  have n: "spec_edges [- 90, - 89.9] ! Suc 0 * pi / 180 = - (pi / 2) - a"
    by (simp add: spec_edges_def a_def field_simps)
  have s: "spec_edges [- 90, - 89.9] ! 0 * pi / 180 = - (pi / 2) - b"
    by (simp add: spec_edges_def b_def field_simps)
  have sn: "sin (- (pi / 2) - a) = - cos a" for a :: real
    by (simp add: sin_diff)
  have "a < b" "0 \<le> a" "b \<le> pi"
    using pi_gt_zero by (simp_all add: a_def b_def)
  then have "cos b < cos a"
    by (intro cos_monotone_0_pi) simp_all
  then have neg: "sin (- (pi / 2) - a) - sin (- (pi / 2) - b) < 0"
    by (simp add: sn)
  have "(0::real) < 6371000 ^ 2 * (0.25 * pi / 180)"
    by simp
  from this neg have "6371000 ^ 2 * (0.25 * pi / 180) * (sin (- (pi / 2) - a) - sin (- (pi / 2) - b)) < 0"
    by (rule mult_pos_neg)
  then have "data out ! 0 ! 0 ! 0 < 0"
    unfolding val n s .
  with out show ?thesis by blast
qed

subsection \<open>Invariance\<close>

text \<open>
  Claim C4. Depth invariance: the function returns an output whose slices at any two depth
  indices \<open>d1\<close> and \<open>d2\<close> are equal, and the depth values do not enter the numbers: another
  depth sequence of the same length gives the same data.
\<close>

theorem depth_invariance:
  assumes "lat \<noteq> []" and "attr_data depth = Inr d" and "attr_data depth' = Inr d'"
    and "length d' = length d"
    and "d1 < length d" "d2 < length d"
  shows "\<exists>out out'. compute_3d_area lat lon depth = Inr out
      \<and> compute_3d_area lat lon depth' = Inr out'
      \<and> depth_slice (data out) d1 = depth_slice (data out) d2
      \<and> data out' = data out"
proof -
  obtain out where out: "compute_3d_area lat lon depth = Inr out"
    using compute_3d_area_returns[OF assms(1,2)] by blast
  obtain out' where out': "compute_3d_area lat lon depth' = Inr out'"
    using compute_3d_area_returns[OF assms(1,3)] by blast
  have d: "values_of depth = d" "values_of depth' = d'"
    using attr_data_values[OF assms(2)] attr_data_values[OF assms(3)] by simp_all
  have "depth_slice (data out) d1 = depth_slice (data out) d2"
    using depth_slice_result[OF out, of d1] depth_slice_result[OF out, of d2] assms(5,6) d by simp
  moreover have "data out' = data out"
    using compute_3d_area_data[OF out] compute_3d_area_data[OF out'] assms(4) d by simp
  ultimately show ?thesis
    using out out' by simp
qed

theorem depth_invariance_witness:
  "\<exists>out out'. compute_3d_area [0, 0.5] [0, 0.5] (XrArray [0, 10, 100]) = Inr out
      \<and> compute_3d_area [0, 0.5] [0, 0.5] (NdArray [5, 50, 500]) = Inr out'
      \<and> depth_slice (data out) 0 = depth_slice (data out) 2
      \<and> data out' = data out"
  by (rule depth_invariance[where d = "[0, 10, 100]" and d' = "[5, 50, 500]"]) simp_all

text \<open>
  Claim C5. Longitude invariance: the function returns an output whose slices at any two
  longitude indices \<open>j1\<close> and \<open>j2\<close> are equal, and the numbers depend on \<^verbatim>\<open>lon\<close> only
  through its length: another longitude sequence of the same length gives the same data.
\<close>

theorem longitude_invariance:
  assumes "lat \<noteq> []" and "attr_data depth = Inr d"
    and "length lon' = length lon"
    and "j1 < length lon" "j2 < length lon"
  shows "\<exists>out out'. compute_3d_area lat lon depth = Inr out
      \<and> compute_3d_area lat lon' depth = Inr out'
      \<and> lon_slice (data out) j1 = lon_slice (data out) j2
      \<and> data out' = data out"
proof -
  obtain out where out: "compute_3d_area lat lon depth = Inr out"
    using compute_3d_area_returns[OF assms(1,2)] by blast
  obtain out' where out': "compute_3d_area lat lon' depth = Inr out'"
    using compute_3d_area_returns[OF assms(1,2)] by blast
  have "lon_slice (data out) j1 = lon_slice (data out) j2"
    using lon_slice_result[OF out assms(4)] lon_slice_result[OF out assms(5)] by simp
  moreover have "data out' = data out"
    using compute_3d_area_data[OF out] compute_3d_area_data[OF out'] assms(3) by simp
  ultimately show ?thesis
    using out out' by simp
qed

theorem longitude_invariance_witness:
  "\<exists>out out'. compute_3d_area [0, 0.5] [0, 0.5, 1] (XrArray [0, 10]) = Inr out
      \<and> compute_3d_area [0, 0.5] [7, 8, 300] (XrArray [0, 10]) = Inr out'
      \<and> lon_slice (data out) 0 = lon_slice (data out) 2
      \<and> data out' = data out"
  by (rule longitude_invariance[where d = "[0, 10]"]) simp_all

subsection \<open>Sums and the single cell\<close>

text \<open>
  Claim C6. The row areas telescope: summed over all latitude rows (at any longitude and
  depth index) they give the area of the whole band,
  \<open>R^2 * (0.25 * pi / 180) * (sin ((lat[last] + 0.25) * pi / 180) - sin ((lat[0] - 0.25) * pi / 180))\<close>.
  This holds for every non-empty \<^verbatim>\<open>lat\<close>, so in particular for ascending latitudes half a
  degree apart.
\<close>

theorem row_areas_telescope:
  assumes "lat \<noteq> []" and "attr_data depth = Inr d"
    and "j < length lon" "k < length d"
  shows "\<exists>out. compute_3d_area lat lon depth = Inr out
      \<and> (\<Sum>i<length lat. data out ! i ! j ! k) =
           6371000 ^ 2 * (0.25 * pi / 180) *
             (sin ((last lat + 0.25) * pi / 180) - sin ((lat ! 0 - 0.25) * pi / 180))"
proof -
  obtain out where out: "compute_3d_area lat lon depth = Inr out"
    using compute_3d_area_returns[OF assms(1,2)] by blast
  have k: "k < length (values_of depth)"
    using assms(4) attr_data_values[OF assms(2)] by simp
  have "spec_edges lat ! 0 = lat ! 0 - 0.25"
    using assms(1) by (simp add: nth_spec_edges_lt)
  then have "(\<Sum>i<length lat. data out ! i ! j ! k) =
           6371000 ^ 2 * (0.25 * pi / 180) *
             (sin ((last lat + 0.25) * pi / 180) - sin ((lat ! 0 - 0.25) * pi / 180))"
    using sum_rows_telescope[OF out assms(3) k] by (simp only: nth_spec_edges_last)
  with out show ?thesis by blast
qed

theorem row_areas_telescope_witness:
  "\<exists>out. compute_3d_area [- 0.5, 0, 0.5] [0, 0.5] (XrArray [0, 10]) = Inr out
      \<and> (\<Sum>i<length [- 0.5, 0, 0.5 :: real]. data out ! i ! 1 ! 1) =
           6371000 ^ 2 * (0.25 * pi / 180) *
             (sin ((last [- 0.5, 0, 0.5] + 0.25) * pi / 180) - sin (([- 0.5, 0, 0.5] ! 0 - 0.25) * pi / 180))"
  by (rule row_areas_telescope[where d = "[0, 10]"]) simp_all

text \<open>
  Claim C7. The single cell: for \<^verbatim>\<open>lat = [0.0]\<close>, \<^verbatim>\<open>lon = [0.0]\<close>, \<^verbatim>\<open>depth = [0.0]\<close> (the depth
  an array with a \<^verbatim>\<open>data\<close> attribute) the function returns an array of shape \<open>(1, 1, 1)\<close>
  whose only value is
  \<open>R^2 * (0.25 * pi / 180) * (sin (0.25 * pi / 180) - sin (-0.25 * pi / 180))\<close> with
  \<open>R = 6371000\<close>, and this value is positive.
\<close>

theorem single_cell_scenario:
  "\<exists>out. compute_3d_area [0] [0] (XrArray [0]) = Inr out
     \<and> shape out = [1, 1, 1]
     \<and> data out = [[[6371000 ^ 2 * (0.25 * pi / 180) * (sin (0.25 * pi / 180) - sin (- 0.25 * pi / 180))]]]
     \<and> 0 < 6371000 ^ 2 * (0.25 * pi / 180) * (sin (0.25 * pi / 180) - sin (- 0.25 * pi / 180))"
proof -
  have pos: "0 < 6371000 ^ 2 * (0.25 * pi / 180) * (sin (0.25 * pi / 180) - sin (- 0.25 * pi / 180))"
    using sin_quarter_degree_pos by simp
  have row: "area_row [- 0.25, 0.25] =
     [6371000 ^ 2 * (0.25 * pi / 180) * (sin (0.25 * pi / 180) - sin (- 0.25 * pi / 180))]"
    by (simp add: area_row_def R_def deg_to_rad_def)
  have "compute_3d_area [0] [0] (XrArray [0]) = Inr
     \<lparr> data = map (\<lambda>a. replicate (length [0::real]) (replicate (length [0::real]) a))
                     (area_row (map (\<lambda>x. x - 0.25) [0] @ [last [0] + 0.25])),
           shape = [length [0::real], length [0::real], length [0::real]],
           dims = [''lat'', ''lon'', ''depth''],
           coords = [(''lat'', \<lparr> cdim = ''lat'', cvalues = [0], cattrs = [] \<rparr>),
                     (''lon'', \<lparr> cdim = ''lon'', cvalues = [0], cattrs = [] \<rparr>),
                     (''depth'', \<lparr> cdim = ''depth'', cvalues = [0],
                                   cattrs = [(''units'', ''m''), (''description'', ''Depth levels'')] \<rparr>)],
           name = ''3D_area'',
           attrs = [(''units'', ''m^2''), (''description'', ''3D area of grid cells over depth'')] \<rparr>"
    by (rule compute_3d_area_result) simp_all
  then show ?thesis
    using pos row by simp
qed

subsection \<open>Metadata\<close>

text \<open>
  Claim C9, as stated, fails: the description the code gives the two-dimensional field has
  the ASCII letter \<open>x\<close> between the digits, not the multiplication sign of the
  specification's text.
\<close>

theorem intermediate_description_counterexample:
  "\<not> isl (area_2d_da [0] [0])
   \<and> dict_get (attrs (projr (area_2d_da [0] [0]))) ''description'' \<noteq> Some spec_description_2d
   \<and> dict_get (attrs (projr (area_2d_da [0] [0]))) ''description'' = Some ''Area of each 1x1 degree grid cell''"
  by (simp add: area_2d_da_nonempty dict_get_def spec_description_2d_def)

text \<open>
  Claim C9, amended. For a non-empty \<^verbatim>\<open>lat\<close> and a \<^verbatim>\<open>depth\<close> that has a \<^verbatim>\<open>data\<close>
  attribute the returned array has the name \<open>3D_area\<close>, the unit \<open>m^2\<close>, the description
  \<open>3D area of grid cells over depth\<close> and a depth coordinate, holding the depth values,
  with the unit \<open>m\<close>; the intermediate two-dimensional field has the unit \<open>m^2\<close> and the
  description \<open>Area of each 1x1 degree grid cell\<close>, written with the letter \<open>x\<close>.
\<close>

theorem result_metadata:
  assumes "lat \<noteq> []" and "attr_data depth = Inr d"
  shows "\<exists>out a2 c. compute_3d_area lat lon depth = Inr out
      \<and> name out = ''3D_area''
      \<and> dict_get (attrs out) ''units'' = Some ''m^2''
      \<and> dict_get (attrs out) ''description'' = Some ''3D area of grid cells over depth''
      \<and> coord_get (coords out) ''depth'' = Some c
      \<and> cdim c = ''depth'' \<and> cvalues c = values_of depth
      \<and> dict_get (cattrs c) ''units'' = Some ''m''
      \<and> area_2d_da lat lon = Inr a2
      \<and> dict_get (attrs a2) ''units'' = Some ''m^2''
      \<and> dict_get (attrs a2) ''description'' = Some ''Area of each 1x1 degree grid cell''"
  using compute_3d_area_result[OF assms, of lon] area_2d_da_nonempty[OF assms(1), of lon]
    attr_data_values[OF assms(2)]
  by (simp add: dict_get_def coord_get_def)

theorem result_metadata_witness:
  "\<exists>out a2 c. compute_3d_area [0, 0.5] [0] (XrArray [0, 10]) = Inr out
      \<and> name out = ''3D_area''
      \<and> dict_get (attrs out) ''units'' = Some ''m^2''
      \<and> dict_get (attrs out) ''description'' = Some ''3D area of grid cells over depth''
      \<and> coord_get (coords out) ''depth'' = Some c
      \<and> cdim c = ''depth'' \<and> cvalues c = values_of (XrArray [0, 10])
      \<and> dict_get (cattrs c) ''units'' = Some ''m''
      \<and> area_2d_da [0, 0.5] [0] = Inr a2
      \<and> dict_get (attrs a2) ''units'' = Some ''m^2''
      \<and> dict_get (attrs a2) ''description'' = Some ''Area of each 1x1 degree grid cell''"
  by (rule result_metadata[where d = "[0, 10]"]) simp_all

subsection \<open>The kind of the depth argument\<close>




end
